theory Spec2Isabelle
  imports Complex_Main
begin

section \<open>Values of the Python runtime\<close>

text \<open>
  Identifiers are UUIDs; they are only ever compared, so they are strings here. The price
  column is a Python float that is stored and copied but never computed with. Instants
  and durations are counted in microseconds, the resolution of \<open>datetime\<close> and
  \<open>timedelta\<close>.
\<close>

type_synonym uuid = string
type_synonym float = real
type_synonym datetime = int
type_synonym timedelta = int

text \<open>
  The exceptions that leave the embedded functions. \<open>HTTPException\<close> carries its
  \<open>status_code\<close> and its \<open>detail\<close>. \<open>IntegrityError\<close> and \<open>DataError\<close> are
  the exceptions of \<open>sqlalchemy.exc\<close> that a commit raises when the database refuses a
  statement; the first carries the name of the violated constraint. Neither is a
  \<open>ValueError\<close>.
\<close>

datatype exn =
    ValueError string
  | TypeError string
  | HTTPException nat string
  | IntegrityError string
  | DataError string

fun status_code :: "exn \<Rightarrow> nat option" where
  "status_code (HTTPException code detail) = Some code"
| "status_code (ValueError msg) = None"
| "status_code (TypeError msg) = None"
| "status_code (IntegrityError constraint) = None"
| "status_code (DataError msg) = None"

section \<open>app/database/models.py\<close>

text \<open>
  One record per mapped class, with the columns of the class. The two timestamp columns of
  each class are filled from the wall clock by column defaults and are read by no
  operation below; the rows here leave them out.
\<close>

record User =
  id :: uuid
  name :: string
  email :: string
  password :: string

record Product =
  id :: uuid
  name :: string
  description :: "string option"
  price :: float
  stock_quantity :: int
  image_url :: "string option"
  category_id :: uuid
  user_id :: uuid

record Category =
  id :: uuid
  name :: string
  description :: "string option"

record InventoryTransaction =
  id :: uuid
  product_id :: uuid
  type :: string
  quantity :: int
  description :: "string option"

text \<open>
  The attribute names each mapped class declares (models.py, lines 46-55, 70-74 and
  90-95). \<open>InventoryTransaction\<close> declares no \<open>user_id\<close>.
\<close>

definition Product_attrs :: "string list" where
  "Product_attrs =
     [''id'', ''name'', ''description'', ''price'', ''stock_quantity'', ''image_url'',
      ''category_id'', ''user_id'', ''date_creation'', ''date_update'']"

definition Category_attrs :: "string list" where
  "Category_attrs = [''id'', ''name'', ''description'', ''date_creation'', ''date_update'']"

definition InventoryTransaction_attrs :: "string list" where
  "InventoryTransaction_attrs =
     [''id'', ''product_id'', ''type'', ''quantity'', ''date_transaction'', ''description'']"

text \<open>
  \<open>Base = declarative_base()\<close> (connection.py, line 30) gives every mapped class the
  default constructor of the declarative base: it walks the keyword arguments in order and
  raises \<open>TypeError\<close> at the first one that is not an attribute of the class. The
  result is the exception raised, if any.
\<close>

fun declarative_constructor :: "string \<Rightarrow> string list \<Rightarrow> string list \<Rightarrow> exn option" where
  "declarative_constructor cls attrs [] = None"
| "declarative_constructor cls attrs (k # kwargs) =
     (if k \<in> set attrs then declarative_constructor cls attrs kwargs
      else Some (TypeError (CHR 0x27 # k @ CHR 0x27 #
                   '' is an invalid keyword argument for '' @ cls)))"

section \<open>app/schemas/item_schemas.py\<close>

record CategoryCreate =
  name :: string
  description :: "string option"

record ProductCreate =
  name :: string
  description :: "string option"
  price :: float
  stock_quantity :: int
  image_url :: "string option"
  category_id :: uuid
  user_id :: uuid

record InventoryTransactionCreate =
  product_id :: uuid
  type :: string
  quantity :: int
  description :: "string option"

text \<open>
  The \<open>Field(gt=0)\<close> constraints of the request schemas. The \<open>type\<close> of a
  transaction is a plain \<open>str\<close>: the schema constrains only the quantity.
\<close>

definition ProductCreate_valid :: "ProductCreate \<Rightarrow> bool" where
  "ProductCreate_valid product \<longleftrightarrow>
     0 < ProductCreate.price product \<and> 0 < ProductCreate.stock_quantity product"

definition InventoryTransactionCreate_valid :: "InventoryTransactionCreate \<Rightarrow> bool" where
  "InventoryTransactionCreate_valid transaction \<longleftrightarrow>
     0 < InventoryTransactionCreate.quantity transaction"

section \<open>The database session\<close>

text \<open>
  The session argument \<open>db\<close> of every service function is the store: the four tables
  that \<open>Base.metadata.create_all\<close> creates from models.py in the PostgreSQL database of
  connection.py (line 18), each the list of its rows in storage order. A query filters a
  table; \<open>first\<close> is the first row of the result or \<open>None\<close>.
\<close>

record Session =
  users :: "User list"
  categories :: "Category list"
  products :: "Product list"
  inventory_transactions :: "InventoryTransaction list"

definition first :: "'a list \<Rightarrow> 'a option" where
  "first rows = (case rows of [] \<Rightarrow> None | r # _ \<Rightarrow> Some r)"

text \<open>
  A commit sends the pending statement to the database, which refuses it when it breaks
  the schema of models.py: an \<open>Integer\<close> column holds 32-bit signed values
  (\<open>DataError\<close>), \<open>id\<close> is the primary key of its table, \<open>products.category_id\<close>
  and \<open>products.user_id\<close> reference \<open>categories.id\<close> and \<open>users.id\<close> (lines 52-53),
  and \<open>inventory_transactions.product_id\<close> references \<open>products.id\<close> (line 91), with
  no \<open>ON DELETE\<close> action (\<open>IntegrityError\<close>). A refused commit leaves the store as it
  was. The value range is checked when the statement is read, the primary key when the row
  is stored, the references at the end of the statement.
\<close>

definition INTEGER_fits :: "int \<Rightarrow> bool" where
  "INTEGER_fits v \<longleftrightarrow> - 2147483648 \<le> v \<and> v \<le> 2147483647"

text \<open>\<open>db.add(row)\<close> followed by \<open>db.commit()\<close>: an \<open>INSERT\<close>.\<close>

definition add_commit_product :: "Session \<Rightarrow> Product \<Rightarrow> exn + Session" where
  "add_commit_product db row =
     (if \<not> INTEGER_fits (Product.stock_quantity row) then
        Inl (DataError ''integer out of range'')
      else if Product.id row \<in> set (map Product.id (products db)) then
        Inl (IntegrityError ''products_pkey'')
      else if Product.category_id row \<notin> set (map Category.id (categories db)) then
        Inl (IntegrityError ''products_category_id_fkey'')
      else if Product.user_id row \<notin> set (map User.id (users db)) then
        Inl (IntegrityError ''products_user_id_fkey'')
      else Inr (db\<lparr>products := products db @ [row]\<rparr>))"

definition add_commit_inventory_transaction ::
  "Session \<Rightarrow> InventoryTransaction \<Rightarrow> exn + Session" where
  "add_commit_inventory_transaction db row =
     (if \<not> INTEGER_fits (InventoryTransaction.quantity row) then
        Inl (DataError ''integer out of range'')
      else if InventoryTransaction.id row
                \<in> set (map InventoryTransaction.id (inventory_transactions db)) then
        Inl (IntegrityError ''inventory_transactions_pkey'')
      else if InventoryTransaction.product_id row \<notin> set (map Product.id (products db)) then
        Inl (IntegrityError ''inventory_transactions_product_id_fkey'')
      else Inr (db\<lparr>inventory_transactions := inventory_transactions db @ [row]\<rparr>))"

text \<open>
  \<open>db.commit()\<close> after attribute assignments \<open>f\<close> on the loaded row \<open>db_product\<close>: an
  \<open>UPDATE\<close> of the columns whose value changed, on the rows with that primary key. A
  column that keeps its value is not sent, so it is not checked again.
\<close>

definition commit_product :: "Session \<Rightarrow> Product \<Rightarrow> (Product \<Rightarrow> Product) \<Rightarrow> exn + Session" where
  "commit_product db db_product f =
     (let row = f db_product
      in if Product.stock_quantity row \<noteq> Product.stock_quantity db_product \<and>
            \<not> INTEGER_fits (Product.stock_quantity row) then
           Inl (DataError ''integer out of range'')
         else if Product.category_id row \<noteq> Product.category_id db_product \<and>
                 Product.category_id row \<notin> set (map Category.id (categories db)) then
           Inl (IntegrityError ''products_category_id_fkey'')
         else Inr (db\<lparr>products :=
                      map (\<lambda>r. if Product.id r = Product.id db_product then f r else r)
                        (products db)\<rparr>))"

text \<open>No constraint of models.py bears on the name or the description of a category.\<close>

definition commit_category :: "Session \<Rightarrow> Category \<Rightarrow> (Category \<Rightarrow> Category) \<Rightarrow> exn + Session" where
  "commit_category db db_category f =
     Inr (db\<lparr>categories :=
            map (\<lambda>r. if Category.id r = Category.id db_category then f r else r)
              (categories db)\<rparr>)"

text \<open>\<open>db.delete(row)\<close> followed by \<open>db.commit()\<close>: a \<open>DELETE\<close> by primary key.\<close>

definition delete_commit_product :: "Session \<Rightarrow> Product \<Rightarrow> exn + Session" where
  "delete_commit_product db db_product =
     (if Product.id db_product
           \<in> set (map InventoryTransaction.product_id (inventory_transactions db)) then
        Inl (IntegrityError ''inventory_transactions_product_id_fkey'')
      else Inr (db\<lparr>products :=
                   filter (\<lambda>r. Product.id r \<noteq> Product.id db_product) (products db)\<rparr>))"

definition delete_commit_category :: "Session \<Rightarrow> Category \<Rightarrow> exn + Session" where
  "delete_commit_category db db_category =
     (if Category.id db_category \<in> set (map Product.category_id (products db)) then
        Inl (IntegrityError ''products_category_id_fkey'')
      else Inr (db\<lparr>categories :=
                   filter (\<lambda>r. Category.id r \<noteq> Category.id db_category) (categories db)\<rparr>))"

section \<open>app/services/inventory_service.py\<close>

text \<open>
  Every service function returns the value it returns or the exception it raises, paired
  with the store as it stands afterwards. A parameter whose name is also a column name is
  written with a prime (\<open>product_id'\<close> for \<open>product_id\<close>).

  The \<open>id\<close> columns are declared \<open>default=uuid.uuid4()\<close> (models.py, lines 21, 46, 70
  and 90): the call is made once, when the class is defined, and its result is the default
  of every row added without an \<open>id\<close> for as long as the process lives. The creating
  functions take that value as \<open>id_default\<close>.
\<close>

definition create_product ::
  "Session \<Rightarrow> uuid \<Rightarrow> ProductCreate \<Rightarrow> uuid \<Rightarrow> (exn + Product) \<times> Session" where
  "create_product db id_default product user_id' =
     (case first (filter (\<lambda>c. Category.id c = ProductCreate.category_id product) (categories db)) of
        None \<Rightarrow> (Inl (ValueError ''Category not found''), db)
      | Some db_category \<Rightarrow>
          (case declarative_constructor ''Product'' Product_attrs
                  [''name'', ''description'', ''price'', ''stock_quantity'', ''image_url'',
                   ''category_id'', ''user_id''] of
             Some e \<Rightarrow> (Inl e, db)
           | None \<Rightarrow>
               (let new_product =
                      \<lparr>Product.id = id_default,
                       name = ProductCreate.name product,
                       description = ProductCreate.description product,
                       price = ProductCreate.price product,
                       stock_quantity = ProductCreate.stock_quantity product,
                       image_url = ProductCreate.image_url product,
                       category_id = ProductCreate.category_id product,
                       user_id = user_id'\<rparr>
                in case add_commit_product db new_product of
                     Inl e \<Rightarrow> (Inl e, db)
                   | Inr db' \<Rightarrow> (Inr new_product, db'))))"

definition get_product :: "Session \<Rightarrow> uuid \<Rightarrow> Product option" where
  "get_product db product_id' = first (filter (\<lambda>p. Product.id p = product_id') (products db))"

definition update_product ::
  "Session \<Rightarrow> uuid \<Rightarrow> ProductCreate \<Rightarrow> (exn + Product) \<times> Session" where
  "update_product db product_id' product =
     (case first (filter (\<lambda>p. Product.id p = product_id') (products db)) of
        None \<Rightarrow> (Inl (ValueError ''Product not found''), db)
      | Some db_product \<Rightarrow>
          (let assign = (\<lambda>r. r\<lparr>Product.name := ProductCreate.name product,
                                Product.description := ProductCreate.description product,
                                Product.price := ProductCreate.price product,
                                Product.stock_quantity := ProductCreate.stock_quantity product,
                                Product.image_url := ProductCreate.image_url product,
                                Product.category_id := ProductCreate.category_id product\<rparr>)
           in case commit_product db db_product assign of
                Inl e \<Rightarrow> (Inl e, db)
              | Inr db' \<Rightarrow> (Inr (assign db_product), db')))"

definition delete_product :: "Session \<Rightarrow> uuid \<Rightarrow> (exn + Product) \<times> Session" where
  "delete_product db product_id' =
     (case first (filter (\<lambda>p. Product.id p = product_id') (products db)) of
        None \<Rightarrow> (Inl (ValueError ''Product not found''), db)
      | Some db_product \<Rightarrow>
          (case delete_commit_product db db_product of
             Inl e \<Rightarrow> (Inl e, db)
           | Inr db' \<Rightarrow> (Inr db_product, db')))"

definition create_inventory_transaction ::
  "Session \<Rightarrow> uuid \<Rightarrow> uuid \<Rightarrow> InventoryTransactionCreate \<Rightarrow> uuid
     \<Rightarrow> (exn + InventoryTransaction) \<times> Session" where
  "create_inventory_transaction db id_default product_id' transaction user_id' =
     (case first (filter (\<lambda>p. Product.id p = product_id') (products db)) of
        None \<Rightarrow> (Inl (ValueError ''Product not found''), db)
      | Some db_product \<Rightarrow>
          (case declarative_constructor ''InventoryTransaction'' InventoryTransaction_attrs
                  [''product_id'', ''type'', ''quantity'', ''description'', ''user_id''] of
             Some e \<Rightarrow> (Inl e, db)
           | None \<Rightarrow>
               (let new_transaction =
                      \<lparr>InventoryTransaction.id = id_default,
                       product_id = product_id',
                       type = InventoryTransactionCreate.type transaction,
                       quantity = InventoryTransactionCreate.quantity transaction,
                       description = InventoryTransactionCreate.description transaction\<rparr>;
                    t = InventoryTransactionCreate.type transaction;
                    q = InventoryTransactionCreate.quantity transaction
                in case add_commit_inventory_transaction db new_transaction of
                     Inl e \<Rightarrow> (Inl e, db)
                   | Inr db1 \<Rightarrow>
                       if t = ''entry'' then
                         (case commit_product db1 db_product
                                 (\<lambda>r. r\<lparr>Product.stock_quantity :=
                                          Product.stock_quantity db_product + q\<rparr>) of
                            Inl e \<Rightarrow> (Inl e, db1)
                          | Inr db2 \<Rightarrow> (Inr new_transaction, db2))
                       else if t = ''exit'' then
                         (if Product.stock_quantity db_product < q then
                            (Inl (ValueError ''Insufficient stock quantity''), db1)
                          else
                            (case commit_product db1 db_product
                                    (\<lambda>r. r\<lparr>Product.stock_quantity :=
                                             Product.stock_quantity db_product - q\<rparr>) of
                               Inl e \<Rightarrow> (Inl e, db1)
                             | Inr db2 \<Rightarrow> (Inr new_transaction, db2)))
                       else (Inr new_transaction, db1))))"

text \<open>
  \<open>get_inventory_transaction\<close> returns the query it builds: the source ends at
  \<open>filter(...)\<close> and never calls \<open>first()\<close> (lines 222-228). A \<open>Query\<close> holds the
  rows it would yield if it were run. The class defines neither \<open>__bool__\<close> nor
  \<open>__len__\<close>, so Python's truth test of a query object is true whatever it holds.
\<close>

datatype 'a Query = Query "'a list"

definition Query_bool :: "'a Query \<Rightarrow> bool" where
  "Query_bool q = True"

definition get_inventory_transaction ::
  "Session \<Rightarrow> uuid \<Rightarrow> uuid \<Rightarrow> InventoryTransaction Query" where
  "get_inventory_transaction db product_id' transaction_id =
     Query (filter (\<lambda>t. InventoryTransaction.product_id t = product_id' \<and>
                         InventoryTransaction.id t = transaction_id)
              (inventory_transactions db))"

definition get_category :: "Session \<Rightarrow> uuid \<Rightarrow> Category option" where
  "get_category db category_id' = first (filter (\<lambda>c. Category.id c = category_id') (categories db))"

definition update_category ::
  "Session \<Rightarrow> uuid \<Rightarrow> CategoryCreate \<Rightarrow> (exn + Category) \<times> Session" where
  "update_category db category_id' category =
     (case first (filter (\<lambda>c. Category.id c = category_id') (categories db)) of
        None \<Rightarrow> (Inl (ValueError ''Category not found''), db)
      | Some db_category \<Rightarrow>
          (let assign = (\<lambda>r. r\<lparr>Category.name := CategoryCreate.name category,
                                Category.description := CategoryCreate.description category\<rparr>)
           in case commit_category db db_category assign of
                Inl e \<Rightarrow> (Inl e, db)
              | Inr db' \<Rightarrow> (Inr (assign db_category), db')))"

definition delete_category :: "Session \<Rightarrow> uuid \<Rightarrow> (exn + Category) \<times> Session" where
  "delete_category db category_id' =
     (case first (filter (\<lambda>c. Category.id c = category_id') (categories db)) of
        None \<Rightarrow> (Inl (ValueError ''Category not found''), db)
      | Some db_category \<Rightarrow>
          (case delete_commit_category db db_category of
             Inl e \<Rightarrow> (Inl e, db)
           | Inr db' \<Rightarrow> (Inr db_category, db')))"

section \<open>app/utils/auth.py\<close>

text \<open>
  The password hash and the JWT codec are library primitives and enter as parameters:
  \<open>verify_password plain hashed\<close> is \<open>pwd_context.verify\<close>; \<open>jwt_encode\<close> is
  \<open>jwt.encode\<close> under the configured key and algorithm; \<open>jwt_decode\<close> is
  \<open>jwt.decode\<close> under the same, with \<open>None\<close> for \<open>JWTError\<close> (bad signature,
  expired, malformed). A payload maps claim names to values. \<open>now\<close> is the reading
  of \<open>datetime.now(UTC)\<close>.
\<close>

datatype claim = Str string | Datetime datetime

type_synonym payload = "string \<rightharpoonup> claim"

definition timedelta_minutes :: "int \<Rightarrow> timedelta" where
  "timedelta_minutes m = m * 60 * 1000000"

definition authenticate_user ::
  "(string \<Rightarrow> string \<Rightarrow> bool) \<Rightarrow> Session \<Rightarrow> string \<Rightarrow> string \<Rightarrow> User option" where
  "authenticate_user verify_password db email' password' =
     (case first (filter (\<lambda>u. User.email u = email') (users db)) of
        None \<Rightarrow> None
      | Some user \<Rightarrow>
          if \<not> verify_password password' (User.password user) then None else Some user)"

text \<open>
  \<open>if expires_delta:\<close> is Python's truth test: \<open>None\<close> and the zero duration are
  both false.
\<close>

definition create_access_token ::
  "(payload \<Rightarrow> string) \<Rightarrow> datetime \<Rightarrow> payload \<Rightarrow> timedelta option \<Rightarrow> string" where
  "create_access_token jwt_encode now data expires_delta =
     (let to_encode = data;
          expire = (case expires_delta of
                      None \<Rightarrow> now + timedelta_minutes 15
                    | Some d \<Rightarrow> if d \<noteq> 0 then now + d else now + timedelta_minutes 15)
      in jwt_encode (to_encode(''exp'' \<mapsto> Datetime expire)))"

text \<open>
  \<open>oauth2_scheme\<close> reads the bearer credentials of the request: \<open>None\<close> stands for a
  request without them, which the scheme refuses with status 401.
\<close>

definition oauth2_scheme :: "string option \<Rightarrow> exn + string" where
  "oauth2_scheme authorization =
     (case authorization of
        None \<Rightarrow> Inl (HTTPException 401 ''Not authenticated'')
      | Some token \<Rightarrow> Inr token)"

definition credentials_exception :: exn where
  "credentials_exception = HTTPException 401 ''Unable to validate credentials''"

definition get_current_user ::
  "(string \<Rightarrow> payload option) \<Rightarrow> Session \<Rightarrow> string option \<Rightarrow> exn + User" where
  "get_current_user jwt_decode db authorization =
     (case oauth2_scheme authorization of
        Inl e \<Rightarrow> Inl e
      | Inr token \<Rightarrow>
          (case jwt_decode token of
             None \<Rightarrow> Inl credentials_exception
           | Some payload \<Rightarrow>
               (case payload ''sub'' of
                  None \<Rightarrow> Inl credentials_exception
                | Some sub \<Rightarrow>
                    (case first (filter (\<lambda>u. Str (User.email u) = sub) (users db)) of
                       None \<Rightarrow> Inl credentials_exception
                     | Some user \<Rightarrow> Inr user))))"

section \<open>app/api/v1/auth.py\<close>

record TokenResponse =
  access_token :: string
  token_type :: string

definition login_for_access_token ::
  "(payload \<Rightarrow> string) \<Rightarrow> (string \<Rightarrow> string \<Rightarrow> bool) \<Rightarrow> datetime \<Rightarrow> Session
     \<Rightarrow> string \<Rightarrow> string \<Rightarrow> exn + TokenResponse" where
  "login_for_access_token jwt_encode verify_password now db username password' =
     (case authenticate_user verify_password db username password' of
        None \<Rightarrow> Inl (HTTPException 401 ''Incorrect email or password'')
      | Some user \<Rightarrow>
          (let access_token_expires = timedelta_minutes 30;
               token = create_access_token jwt_encode now
                         (Map.empty(''sub'' \<mapsto> Str (User.email user)))
                         (Some access_token_expires)
           in Inr \<lparr>access_token = token, token_type = ''bearer''\<rparr>))"

section \<open>app/api/v1/inventory.py\<close>

text \<open>
  An endpoint runs after its dependencies: one that declares
  \<open>current_user = Depends(get_current_user)\<close> resolves the caller first and raises what
  the dependency raises. Request bodies arrive as validated schema objects. The handler
  \<open>except ValueError as e: raise HTTPException(status_code=..., detail=str(e))\<close> that
  closes each mutating endpoint is \<open>except_ValueError\<close>; any other exception passes
  through it.
\<close>

fun except_ValueError :: "nat \<Rightarrow> (exn + 'a) \<times> Session \<Rightarrow> (exn + 'a) \<times> Session" where
  "except_ValueError code (Inl (ValueError msg), db) = (Inl (HTTPException code msg), db)"
| "except_ValueError code (r, db) = (r, db)"

definition create_new_product ::
  "(string \<Rightarrow> payload option) \<Rightarrow> Session \<Rightarrow> string option \<Rightarrow> uuid \<Rightarrow> ProductCreate
     \<Rightarrow> (exn + Product) \<times> Session" where
  "create_new_product jwt_decode db authorization id_default product =
     (case get_current_user jwt_decode db authorization of
        Inl e \<Rightarrow> (Inl e, db)
      | Inr current_user \<Rightarrow>
          except_ValueError 400 (create_product db id_default product (User.id current_user)))"

definition read_product :: "Session \<Rightarrow> uuid \<Rightarrow> exn + Product" where
  "read_product db product_id' =
     (case get_product db product_id' of
        None \<Rightarrow> Inl (HTTPException 404 ''Product not found'')
      | Some product \<Rightarrow> Inr product)"

definition update_existing_product ::
  "(string \<Rightarrow> payload option) \<Rightarrow> Session \<Rightarrow> string option \<Rightarrow> uuid \<Rightarrow> ProductCreate
     \<Rightarrow> (exn + Product) \<times> Session" where
  "update_existing_product jwt_decode db authorization product_id' product =
     (case get_current_user jwt_decode db authorization of
        Inl e \<Rightarrow> (Inl e, db)
      | Inr current_user \<Rightarrow> except_ValueError 404 (update_product db product_id' product))"

definition delete_existing_product ::
  "(string \<Rightarrow> payload option) \<Rightarrow> Session \<Rightarrow> string option \<Rightarrow> uuid
     \<Rightarrow> (exn + Product) \<times> Session" where
  "delete_existing_product jwt_decode db authorization product_id' =
     (case get_current_user jwt_decode db authorization of
        Inl e \<Rightarrow> (Inl e, db)
      | Inr current_user \<Rightarrow> except_ValueError 404 (delete_product db product_id'))"

definition create_transaction ::
  "(string \<Rightarrow> payload option) \<Rightarrow> Session \<Rightarrow> string option \<Rightarrow> uuid \<Rightarrow> uuid
     \<Rightarrow> InventoryTransactionCreate \<Rightarrow> (exn + InventoryTransaction) \<times> Session" where
  "create_transaction jwt_decode db authorization id_default product_id' transaction =
     (case get_current_user jwt_decode db authorization of
        Inl e \<Rightarrow> (Inl e, db)
      | Inr current_user \<Rightarrow>
          except_ValueError 400
            (create_inventory_transaction db id_default product_id' transaction (User.id current_user)))"

definition read_transaction :: "Session \<Rightarrow> uuid \<Rightarrow> uuid \<Rightarrow> exn + InventoryTransaction Query" where
  "read_transaction db product_id' transaction_id =
     (let transaction = get_inventory_transaction db product_id' transaction_id
      in if \<not> Query_bool transaction then Inl (HTTPException 404 ''Stock movement not found'')
         else Inr transaction)"

definition update_existing_category ::
  "Session \<Rightarrow> uuid \<Rightarrow> CategoryCreate \<Rightarrow> (exn + Category) \<times> Session" where
  "update_existing_category db category_id' category =
     except_ValueError 404 (update_category db category_id' category)"

definition delete_existing_category :: "Session \<Rightarrow> uuid \<Rightarrow> (exn + Category) \<times> Session" where
  "delete_existing_category db category_id' =
     except_ValueError 404 (delete_category db category_id')"

section \<open>A concrete store\<close>

text \<open>
  The store of the end-to-end scenario: user A, the category Tools, and the product
  Hammer at price 10 with 5 in stock. The ledger is empty.
\<close>

definition hammer_db :: Session where
  "hammer_db =
     \<lparr>users = [\<lparr>User.id = ''u1'', name = ''A'', email = ''a@x.com'', password = ''hash-pw1''\<rparr>],
      categories = [\<lparr>Category.id = ''c1'', name = ''Tools'', description = None\<rparr>],
      products = [\<lparr>Product.id = ''p1'', name = ''Hammer'', description = None, price = 10,
                   stock_quantity = 5, image_url = None, category_id = ''c1'', user_id = ''u1''\<rparr>],
      inventory_transactions = []\<rparr>"

text \<open>The same store with a second category, Garden, that no product references.\<close>

definition garden_db :: Session where
  "garden_db =
     hammer_db\<lparr>categories :=
       categories hammer_db @ [\<lparr>Category.id = ''c2'', name = ''Garden'', description = None\<rparr>]\<rparr>"

section \<open>Queries\<close>

lemma first_filter_SomeD: "first (filter P xs) = Some x \<Longrightarrow> P x \<and> x \<in> set xs"
  by (induction xs) (auto simp: first_def split: if_splits)


lemma first_filter_flush_category:
  assumes "\<And>r. Category.id (f r) = Category.id r"
  shows "first (filter (\<lambda>r. Category.id r = k)
                  (map (\<lambda>r. if Category.id r = pk then f r else r) xs)) =
         map_option (\<lambda>r. if Category.id r = pk then f r else r)
           (first (filter (\<lambda>r. Category.id r = k) xs))"
  using assms by (induction xs) (auto simp: first_def)

lemma first_filter_deleted_category:
  "first (filter (\<lambda>r. Category.id r = k) (filter (\<lambda>r. Category.id r \<noteq> k) xs)) = None"
  by (induction xs) (auto simp: first_def)

lemma hammer_db_product:
  "first (filter (\<lambda>p. Product.id p = ''p1'') (products hammer_db)) =
     Some \<lparr>Product.id = ''p1'', name = ''Hammer'', description = None, price = 10,
           stock_quantity = 5, image_url = None, category_id = ''c1'', user_id = ''u1''\<rparr>"
  by (simp add: hammer_db_def first_def)

section \<open>The stock ledger\<close>

text \<open>
  \<open>create_inventory_transaction\<close> builds its row with the keyword \<open>user_id\<close>
  (line 166), which the mapped class does not declare: the constructor raises before
  anything is added to the session.
\<close>

lemma InventoryTransaction_rejects_user_id:
  "declarative_constructor ''InventoryTransaction'' InventoryTransaction_attrs
     [''product_id'', ''type'', ''quantity'', ''description'', ''user_id''] =
   Some (TypeError (CHR 0x27 # ''user_id'' @ CHR 0x27 #
           '' is an invalid keyword argument for InventoryTransaction''))"
  by (simp add: InventoryTransaction_attrs_def)

lemma Product_accepts_keywords:
  "declarative_constructor ''Product'' Product_attrs
     [''name'', ''description'', ''price'', ''stock_quantity'', ''image_url'',
      ''category_id'', ''user_id''] = None"
  by (simp add: Product_attrs_def)

lemma create_inventory_transaction_existing:
  assumes "first (filter (\<lambda>p. Product.id p = product_id') (products db)) = Some db_product"
  shows "create_inventory_transaction db id_default product_id' transaction user_id' =
           (Inl (TypeError (CHR 0x27 # ''user_id'' @ CHR 0x27 #
                   '' is an invalid keyword argument for InventoryTransaction'')), db)"
  using assms
  by (simp add: create_inventory_transaction_def InventoryTransaction_attrs_def)

lemma create_inventory_transaction_store:
  "snd (create_inventory_transaction db id_default product_id' transaction user_id') = db"
  by (simp add: create_inventory_transaction_def InventoryTransaction_attrs_def
           split: option.splits)

text \<open>
  C1. Recording an entry of quantity 3 for the Hammer (5 in stock) should leave 8 in
  stock. The call raises \<open>TypeError\<close> instead, and the stock is still 5.
\<close>

theorem record_entry_raises_TypeError:
  "create_inventory_transaction hammer_db ''t1'' ''p1''
     \<lparr>InventoryTransactionCreate.product_id = ''p1'', type = ''entry'', quantity = 3,
      description = None\<rparr> ''u1'' =
     (Inl (TypeError (CHR 0x27 # ''user_id'' @ CHR 0x27 #
             '' is an invalid keyword argument for InventoryTransaction'')), hammer_db) \<and>
   map_option Product.stock_quantity (get_product hammer_db ''p1'') = Some 5"
  using create_inventory_transaction_existing [OF hammer_db_product] hammer_db_product
  by (simp add: get_product_def)

text \<open>
  C3. An exit of quantity 8 for the Hammer (5 in stock) should fail with
  \<open>ValueError\<close> for insufficient stock and leave its row in the ledger. The call
  raises \<open>TypeError\<close> before the row is added: the ledger stays empty.
\<close>

theorem record_exit_leaves_no_row:
  "fst (create_inventory_transaction hammer_db ''t1'' ''p1''
          \<lparr>InventoryTransactionCreate.product_id = ''p1'', type = ''exit'', quantity = 8,
           description = None\<rparr> ''u1'') =
     Inl (TypeError (CHR 0x27 # ''user_id'' @ CHR 0x27 #
            '' is an invalid keyword argument for InventoryTransaction'')) \<and>
   inventory_transactions
     (snd (create_inventory_transaction hammer_db ''t1'' ''p1''
             \<lparr>InventoryTransactionCreate.product_id = ''p1'', type = ''exit'', quantity = 8,
              description = None\<rparr> ''u1'')) = []"
  using create_inventory_transaction_existing [OF hammer_db_product]
  by (simp add: hammer_db_def)

text \<open>
  C10. A transaction whose type is neither \<open>entry\<close> nor \<open>exit\<close> should be
  stored and returned with the stock untouched. The call raises \<open>TypeError\<close>; no row
  is stored and none is returned.
\<close>

theorem record_other_type_raises_TypeError:
  "fst (create_inventory_transaction hammer_db ''t1'' ''p1''
          \<lparr>InventoryTransactionCreate.product_id = ''p1'', type = ''adjust'', quantity = 2,
           description = None\<rparr> ''u1'') =
     Inl (TypeError (CHR 0x27 # ''user_id'' @ CHR 0x27 #
            '' is an invalid keyword argument for InventoryTransaction'')) \<and>
   inventory_transactions
     (snd (create_inventory_transaction hammer_db ''t1'' ''p1''
             \<lparr>InventoryTransactionCreate.product_id = ''p1'', type = ''adjust'', quantity = 2,
              description = None\<rparr> ''u1'')) = []"
  using create_inventory_transaction_existing [OF hammer_db_product]
  by (simp add: hammer_db_def)

text \<open>
  C5. Reading a transaction that does not exist should fail with status 404. The ledger of
  the concrete store is empty, yet \<open>read_transaction\<close> raises nothing: it returns the
  query object that \<open>get_inventory_transaction\<close> built, holding no row.
\<close>

theorem read_transaction_missing_no_404:
  "read_transaction hammer_db ''p1'' ''t1'' = Inr (Query [])"
  by (simp add: read_transaction_def Query_bool_def get_inventory_transaction_def hammer_db_def)

lemma read_transaction_returns_query:
  "read_transaction db product_id' transaction_id =
     Inr (get_inventory_transaction db product_id' transaction_id)"
  by (simp add: read_transaction_def Query_bool_def)

section \<open>The access-control gate\<close>

lemma get_current_user_Inr_iff:
  "get_current_user jwt_decode db authorization = Inr user \<longleftrightarrow>
     (\<exists>token payload sub.
        authorization = Some token \<and> jwt_decode token = Some payload \<and>
        payload ''sub'' = Some sub \<and>
        first (filter (\<lambda>u. Str (User.email u) = sub) (users db)) = Some user)"
  by (auto simp: get_current_user_def oauth2_scheme_def split: option.splits)

lemma get_current_user_Inl_401:
  "get_current_user jwt_decode db authorization = Inl e \<Longrightarrow> \<exists>detail. e = HTTPException 401 detail"
  by (auto simp: get_current_user_def oauth2_scheme_def credentials_exception_def
           split: option.splits)

lemma gated_endpoints_refuse:
  assumes "get_current_user jwt_decode db authorization = Inl e"
  shows "create_new_product jwt_decode db authorization id_default product = (Inl e, db)"
    and "update_existing_product jwt_decode db authorization product_id' product = (Inl e, db)"
    and "delete_existing_product jwt_decode db authorization product_id' = (Inl e, db)"
    and "create_transaction jwt_decode db authorization id_default product_id' transaction = (Inl e, db)"
  using assms
  by (simp_all add: create_new_product_def update_existing_product_def
        delete_existing_product_def create_transaction_def)

lemma gated_endpoints_run:
  assumes "get_current_user jwt_decode db authorization = Inr user"
  shows "create_new_product jwt_decode db authorization id_default product =
           except_ValueError 400 (create_product db id_default product (User.id user))"
    and "update_existing_product jwt_decode db authorization product_id' product =
           except_ValueError 404 (update_product db product_id' product)"
    and "delete_existing_product jwt_decode db authorization product_id' =
           except_ValueError 404 (delete_product db product_id')"
    and "create_transaction jwt_decode db authorization id_default product_id' transaction =
           except_ValueError 400
             (create_inventory_transaction db id_default product_id' transaction (User.id user))"
  using assms
  by (simp_all add: create_new_product_def update_existing_product_def
        delete_existing_product_def create_transaction_def)

lemma get_category_id: "get_category db category_id' = Some c \<Longrightarrow> Category.id c = category_id'"
  using first_filter_SomeD [of "\<lambda>r. Category.id r = category_id'" "categories db" c]
  by (simp add: get_category_def)

lemma update_existing_category_found:
  assumes "get_category db category_id' = Some c"
  shows "fst (update_existing_category db category_id' category) =
           Inr (c\<lparr>Category.name := CategoryCreate.name category,
                  Category.description := CategoryCreate.description category\<rparr>)"
    and "get_category (snd (update_existing_category db category_id' category)) category_id' =
           Some (c\<lparr>Category.name := CategoryCreate.name category,
                   Category.description := CategoryCreate.description category\<rparr>)"
  using assms get_category_id [OF assms]
  by (simp_all add: update_existing_category_def update_category_def get_category_def
        commit_category_def first_filter_flush_category)

lemma delete_existing_category_unreferenced:
  assumes "get_category db category_id' = Some c"
      and "category_id' \<notin> set (map Product.category_id (products db))"
  shows "fst (delete_existing_category db category_id') = Inr c"
    and "get_category (snd (delete_existing_category db category_id')) category_id' = None"
  using assms get_category_id [OF assms(1)]
  by (simp_all add: delete_existing_category_def delete_category_def get_category_def
        delete_commit_category_def first_filter_deleted_category first_def)

lemma delete_existing_category_referenced:
  assumes "get_category db category_id' = Some c"
      and "category_id' \<in> set (map Product.category_id (products db))"
  shows "delete_existing_category db category_id' =
           (Inl (IntegrityError ''products_category_id_fkey''), db)"
  using assms get_category_id [OF assms(1)]
  by (simp add: delete_existing_category_def delete_category_def get_category_def
        delete_commit_category_def)

text \<open>
  C6. Product create, update and delete and transaction create run only for a caller whose
  bearer token resolves to a user. \<open>get_current_user\<close> returns a user exactly when
  the request carries a token that decodes to a payload whose \<open>sub\<close> is the email of a
  stored user. For every other request (no token, a token that does not decode, no
  \<open>sub\<close>, no such user) each of the four endpoints raises an \<open>HTTPException\<close> of
  status 401 and leaves the store as it was; for a resolved caller each runs its service
  function. Category update and category delete take no token: on an existing category
  the update succeeds and is stored, and the delete removes the category when no product
  references it and is refused by the foreign key of \<open>products.category_id\<close> when one
  does.
\<close>

theorem mutating_endpoints_authorization:
  "(get_current_user jwt_decode db authorization = Inr user \<longleftrightarrow>
      (\<exists>token payload sub.
         authorization = Some token \<and> jwt_decode token = Some payload \<and>
         payload ''sub'' = Some sub \<and>
         first (filter (\<lambda>u. Str (User.email u) = sub) (users db)) = Some user)) \<and>
   ((\<forall>token payload sub u.
        \<not> (authorization = Some token \<and> jwt_decode token = Some payload \<and>
           payload ''sub'' = Some sub \<and>
           first (filter (\<lambda>u. Str (User.email u) = sub) (users db)) = Some u)) \<longrightarrow>
      (\<exists>detail.
         create_new_product jwt_decode db authorization id_default product =
           (Inl (HTTPException 401 detail), db) \<and>
         update_existing_product jwt_decode db authorization product_id' product =
           (Inl (HTTPException 401 detail), db) \<and>
         delete_existing_product jwt_decode db authorization product_id' =
           (Inl (HTTPException 401 detail), db) \<and>
         create_transaction jwt_decode db authorization id_default product_id' transaction =
           (Inl (HTTPException 401 detail), db))) \<and>
   (get_current_user jwt_decode db authorization = Inr user \<longrightarrow>
      create_new_product jwt_decode db authorization id_default product =
        except_ValueError 400 (create_product db id_default product (User.id user)) \<and>
      update_existing_product jwt_decode db authorization product_id' product =
        except_ValueError 404 (update_product db product_id' product) \<and>
      delete_existing_product jwt_decode db authorization product_id' =
        except_ValueError 404 (delete_product db product_id') \<and>
      create_transaction jwt_decode db authorization id_default product_id' transaction =
        except_ValueError 400
          (create_inventory_transaction db id_default product_id' transaction (User.id user))) \<and>
   (get_category db category_id' = Some c \<longrightarrow>
      fst (update_existing_category db category_id' category) =
        Inr (c\<lparr>Category.name := CategoryCreate.name category,
               Category.description := CategoryCreate.description category\<rparr>) \<and>
      get_category (snd (update_existing_category db category_id' category)) category_id' =
        Some (c\<lparr>Category.name := CategoryCreate.name category,
                Category.description := CategoryCreate.description category\<rparr>) \<and>
      (if category_id' \<in> set (map Product.category_id (products db))
       then delete_existing_category db category_id' =
              (Inl (IntegrityError ''products_category_id_fkey''), db)
       else fst (delete_existing_category db category_id') = Inr c \<and>
            get_category (snd (delete_existing_category db category_id')) category_id' = None))"
proof (intro conjI impI)
  show "get_current_user jwt_decode db authorization = Inr user \<longleftrightarrow>
      (\<exists>token payload sub.
         authorization = Some token \<and> jwt_decode token = Some payload \<and>
         payload ''sub'' = Some sub \<and>
         first (filter (\<lambda>u. Str (User.email u) = sub) (users db)) = Some user)"
    by (rule get_current_user_Inr_iff)
next
  assume unresolved: "\<forall>token payload sub u.
        \<not> (authorization = Some token \<and> jwt_decode token = Some payload \<and>
           payload ''sub'' = Some sub \<and>
           first (filter (\<lambda>u. Str (User.email u) = sub) (users db)) = Some u)"
  have "get_current_user jwt_decode db authorization \<noteq> Inr u" for u
    using unresolved get_current_user_Inr_iff [of jwt_decode db authorization u] by blast
  then obtain e where e: "get_current_user jwt_decode db authorization = Inl e"
    by (cases "get_current_user jwt_decode db authorization") auto
  then obtain detail where "e = HTTPException 401 detail"
    using get_current_user_Inl_401 by blast
  with gated_endpoints_refuse [OF e]
  show "\<exists>detail.
         create_new_product jwt_decode db authorization id_default product =
           (Inl (HTTPException 401 detail), db) \<and>
         update_existing_product jwt_decode db authorization product_id' product =
           (Inl (HTTPException 401 detail), db) \<and>
         delete_existing_product jwt_decode db authorization product_id' =
           (Inl (HTTPException 401 detail), db) \<and>
         create_transaction jwt_decode db authorization id_default product_id' transaction =
           (Inl (HTTPException 401 detail), db)"
    by blast
next
  assume ok: "get_current_user jwt_decode db authorization = Inr user"
  show "create_new_product jwt_decode db authorization id_default product =
        except_ValueError 400 (create_product db id_default product (User.id user))"
    by (rule gated_endpoints_run(1) [OF ok])
  show "update_existing_product jwt_decode db authorization product_id' product =
        except_ValueError 404 (update_product db product_id' product)"
    by (rule gated_endpoints_run(2) [OF ok])
  show "delete_existing_product jwt_decode db authorization product_id' =
        except_ValueError 404 (delete_product db product_id')"
    by (rule gated_endpoints_run(3) [OF ok])
  show "create_transaction jwt_decode db authorization id_default product_id' transaction =
        except_ValueError 400
          (create_inventory_transaction db id_default product_id' transaction (User.id user))"
    by (rule gated_endpoints_run(4) [OF ok])
next
  assume c: "get_category db category_id' = Some c"
  show "fst (update_existing_category db category_id' category) =
        Inr (c\<lparr>Category.name := CategoryCreate.name category,
               Category.description := CategoryCreate.description category\<rparr>)"
    by (rule update_existing_category_found(1) [OF c])
  show "get_category (snd (update_existing_category db category_id' category)) category_id' =
        Some (c\<lparr>Category.name := CategoryCreate.name category,
                Category.description := CategoryCreate.description category\<rparr>)"
    by (rule update_existing_category_found(2) [OF c])
  show "if category_id' \<in> set (map Product.category_id (products db))
       then delete_existing_category db category_id' =
              (Inl (IntegrityError ''products_category_id_fkey''), db)
       else fst (delete_existing_category db category_id') = Inr c \<and>
            get_category (snd (delete_existing_category db category_id')) category_id' = None"
    using delete_existing_category_referenced [OF c]
          delete_existing_category_unreferenced [OF c]
    by (cases "category_id' \<in> set (map Product.category_id (products db))") simp_all
qed

theorem mutating_endpoints_authorization_witness:
  "(\<exists>detail.
      update_existing_product
        (\<lambda>token. if token = ''good'' then Some [''sub'' \<mapsto> Str ''a@x.com'']
                 else if token = ''ghost'' then Some [''sub'' \<mapsto> Str ''z@x.com''] else None)
        garden_db None ''p1''
        \<lparr>ProductCreate.name = ''Mallet'', description = None, price = 12, stock_quantity = 7,
         image_url = None, category_id = ''c1'', user_id = ''u1''\<rparr> =
      (Inl (HTTPException 401 detail), garden_db)) \<and>
   (\<exists>detail.
      delete_existing_product
        (\<lambda>token. if token = ''good'' then Some [''sub'' \<mapsto> Str ''a@x.com'']
                 else if token = ''ghost'' then Some [''sub'' \<mapsto> Str ''z@x.com''] else None)
        garden_db (Some ''garbage'') ''p1'' =
      (Inl (HTTPException 401 detail), garden_db)) \<and>
   (\<exists>detail.
      create_new_product
        (\<lambda>token. if token = ''good'' then Some [''sub'' \<mapsto> Str ''a@x.com'']
                 else if token = ''ghost'' then Some [''sub'' \<mapsto> Str ''z@x.com''] else None)
        garden_db (Some ''ghost'') ''p0''
        \<lparr>ProductCreate.name = ''Mallet'', description = None, price = 12, stock_quantity = 7,
         image_url = None, category_id = ''c1'', user_id = ''u1''\<rparr> =
      (Inl (HTTPException 401 detail), garden_db)) \<and>
   fst (update_existing_product
          (\<lambda>token. if token = ''good'' then Some [''sub'' \<mapsto> Str ''a@x.com'']
                   else if token = ''ghost'' then Some [''sub'' \<mapsto> Str ''z@x.com''] else None)
          garden_db (Some ''good'') ''p1''
          \<lparr>ProductCreate.name = ''Mallet'', description = None, price = 12, stock_quantity = 7,
           image_url = None, category_id = ''c1'', user_id = ''u1''\<rparr>) =
     Inr \<lparr>Product.id = ''p1'', name = ''Mallet'', description = None, price = 12,
          stock_quantity = 7, image_url = None, category_id = ''c1'', user_id = ''u1''\<rparr> \<and>
   fst (update_existing_category garden_db ''c1''
          \<lparr>CategoryCreate.name = ''Hand tools'', description = None\<rparr>) =
     Inr \<lparr>Category.id = ''c1'', name = ''Hand tools'', description = None\<rparr> \<and>
   delete_existing_category garden_db ''c1'' =
     (Inl (IntegrityError ''products_category_id_fkey''), garden_db) \<and>
   fst (delete_existing_category garden_db ''c2'') =
     Inr \<lparr>Category.id = ''c2'', name = ''Garden'', description = None\<rparr> \<and>
   get_category (snd (delete_existing_category garden_db ''c2'')) ''c2'' = None"
proof -
  let ?dec = "\<lambda>token. if token = ''good'' then Some [''sub'' \<mapsto> Str ''a@x.com'']
                 else if token = ''ghost'' then Some [''sub'' \<mapsto> Str ''z@x.com''] else None"
  let ?new = "\<lparr>ProductCreate.name = ''Mallet'', description = None, price = 12,
               stock_quantity = 7, image_url = None, category_id = ''c1'', user_id = ''u1''\<rparr>"
  let ?a = "\<lparr>User.id = ''u1'', name = ''A'', email = ''a@x.com'', password = ''hash-pw1''\<rparr>"
  let ?c1 = "\<lparr>Category.id = ''c1'', name = ''Tools'', description = None\<rparr>"
  let ?c2 = "\<lparr>Category.id = ''c2'', name = ''Garden'', description = None\<rparr>"
  note gate = mutating_endpoints_authorization
  have users: "users garden_db = [?a]"
    by (simp add: garden_db_def hammer_db_def)
  have none: "\<forall>token payload sub u.
        \<not> (None = Some token \<and> ?dec token = Some payload \<and> payload ''sub'' = Some sub \<and>
           first (filter (\<lambda>u. Str (User.email u) = sub) (users garden_db)) = Some u)"
    by simp
  have garbage: "\<forall>token payload sub u.
        \<not> (Some ''garbage'' = Some token \<and> ?dec token = Some payload \<and>
           payload ''sub'' = Some sub \<and>
           first (filter (\<lambda>u. Str (User.email u) = sub) (users garden_db)) = Some u)"
    by auto
  have ghost: "\<forall>token payload sub u.
        \<not> (Some ''ghost'' = Some token \<and> ?dec token = Some payload \<and>
           payload ''sub'' = Some sub \<and>
           first (filter (\<lambda>u. Str (User.email u) = sub) (users garden_db)) = Some u)"
    by (auto simp: users first_def)
  have w1: "\<exists>detail. update_existing_product ?dec garden_db None ''p1'' ?new =
              (Inl (HTTPException 401 detail), garden_db)"
    using gate [where jwt_decode = ?dec and db = garden_db and authorization = None
                 and product_id' = "''p1''" and product = ?new,
               THEN conjunct2, THEN conjunct1, THEN mp, OF none]
    by blast
  have w2: "\<exists>detail. delete_existing_product ?dec garden_db (Some ''garbage'') ''p1'' =
              (Inl (HTTPException 401 detail), garden_db)"
    using gate [where jwt_decode = ?dec and db = garden_db
                 and authorization = "Some ''garbage''" and product_id' = "''p1''",
               THEN conjunct2, THEN conjunct1, THEN mp, OF garbage]
    by blast
  have w3: "\<exists>detail. create_new_product ?dec garden_db (Some ''ghost'') ''p0'' ?new =
              (Inl (HTTPException 401 detail), garden_db)"
    using gate [where jwt_decode = ?dec and db = garden_db
                 and authorization = "Some ''ghost''" and id_default = "''p0''"
                 and product = ?new,
               THEN conjunct2, THEN conjunct1, THEN mp, OF ghost]
    by blast
  have good: "get_current_user ?dec garden_db (Some ''good'') = Inr ?a"
    by (simp add: get_current_user_def oauth2_scheme_def users first_def)
  have run: "update_existing_product ?dec garden_db (Some ''good'') ''p1'' ?new =
               except_ValueError 404 (update_product garden_db ''p1'' ?new)"
    using gate [where jwt_decode = ?dec and db = garden_db
                 and authorization = "Some ''good''" and user = ?a
                 and product_id' = "''p1''" and product = ?new,
               THEN conjunct2, THEN conjunct2, THEN conjunct1, THEN mp, OF good]
    by blast
  have upd: "fst (except_ValueError 404 (update_product garden_db ''p1'' ?new)) =
               Inr \<lparr>Product.id = ''p1'', name = ''Mallet'', description = None, price = 12,
                    stock_quantity = 7, image_url = None, category_id = ''c1'',
                    user_id = ''u1''\<rparr>"
    by (simp add: update_product_def commit_product_def garden_db_def hammer_db_def first_def
          INTEGER_fits_def)
  have w4: "fst (update_existing_product ?dec garden_db (Some ''good'') ''p1'' ?new) =
               Inr \<lparr>Product.id = ''p1'', name = ''Mallet'', description = None, price = 12,
                    stock_quantity = 7, image_url = None, category_id = ''c1'',
                    user_id = ''u1''\<rparr>"
    unfolding run by (rule upd)
  have c1: "get_category garden_db ''c1'' = Some ?c1"
    by (simp add: get_category_def garden_db_def hammer_db_def first_def)
  have c2: "get_category garden_db ''c2'' = Some ?c2"
    by (simp add: get_category_def garden_db_def hammer_db_def first_def)
  have cat1: "fst (update_existing_category garden_db ''c1''
                     \<lparr>CategoryCreate.name = ''Hand tools'', description = None\<rparr>) =
                Inr \<lparr>Category.id = ''c1'', name = ''Hand tools'', description = None\<rparr> \<and>
              delete_existing_category garden_db ''c1'' =
                (Inl (IntegrityError ''products_category_id_fkey''), garden_db)"
    using gate [where db = garden_db and category_id' = "''c1''" and c = ?c1
                 and category = "\<lparr>CategoryCreate.name = ''Hand tools'', description = None\<rparr>",
               THEN conjunct2, THEN conjunct2, THEN conjunct2, THEN mp, OF c1]
    by (simp add: garden_db_def hammer_db_def)
  have cat2: "fst (delete_existing_category garden_db ''c2'') = Inr ?c2 \<and>
              get_category (snd (delete_existing_category garden_db ''c2'')) ''c2'' = None"
    using gate [where db = garden_db and category_id' = "''c2''" and c = ?c2,
               THEN conjunct2, THEN conjunct2, THEN conjunct2, THEN mp, OF c2]
    by (simp add: garden_db_def hammer_db_def)
  show ?thesis
    using w1 w2 w3 w4 cat1 cat2 by (intro conjI) (erule conjunct1 conjunct2 | assumption)+
qed

section \<open>The identity store\<close>

text \<open>
  C7. \<open>authenticate_user\<close> returns a user exactly when that user is the row found for
  the email and the password verifies against the row's stored hash. Whenever it returns
  nothing, for an unknown email as for a wrong password, the login endpoint raises one and
  the same exception: status 401, detail \<open>Incorrect email or password\<close>.
\<close>

theorem authenticate_user_iff:
  "(authenticate_user verify_password db email' password' = Some user \<longleftrightarrow>
      first (filter (\<lambda>u. User.email u = email') (users db)) = Some user \<and>
      verify_password password' (User.password user)) \<and>
   (authenticate_user verify_password db email' password' = None \<longrightarrow>
      login_for_access_token jwt_encode verify_password now db email' password' =
        Inl (HTTPException 401 ''Incorrect email or password''))"
  by (auto simp: authenticate_user_def login_for_access_token_def split: option.splits)

theorem authenticate_user_iff_witness:
  "authenticate_user (\<lambda>plain hashed. hashed = ''hash-'' @ plain) hammer_db ''a@x.com'' ''pw1'' =
     Some \<lparr>User.id = ''u1'', name = ''A'', email = ''a@x.com'', password = ''hash-pw1''\<rparr> \<and>
   authenticate_user (\<lambda>plain hashed. hashed = ''hash-'' @ plain) hammer_db ''a@x.com'' ''pw2'' = None \<and>
   authenticate_user (\<lambda>plain hashed. hashed = ''hash-'' @ plain) hammer_db ''b@x.com'' ''pw1'' = None \<and>
   login_for_access_token (\<lambda>payload. ''jwt'') (\<lambda>plain hashed. hashed = ''hash-'' @ plain) 0
       hammer_db ''a@x.com'' ''pw2'' =
     Inl (HTTPException 401 ''Incorrect email or password'') \<and>
   login_for_access_token (\<lambda>payload. ''jwt'') (\<lambda>plain hashed. hashed = ''hash-'' @ plain) 0
       hammer_db ''b@x.com'' ''pw1'' =
     Inl (HTTPException 401 ''Incorrect email or password'')"
proof -
  let ?v = "\<lambda>plain hashed. hashed = ''hash-'' @ plain"
  let ?u = "\<lparr>User.id = ''u1'', name = ''A'', email = ''a@x.com'', password = ''hash-pw1''\<rparr>"
  have f1: "first (filter (\<lambda>u. User.email u = ''a@x.com'') (users hammer_db)) = Some ?u"
    by (simp add: hammer_db_def first_def)
  have ok: "authenticate_user ?v hammer_db ''a@x.com'' ''pw1'' = Some ?u"
    using authenticate_user_iff [of ?v hammer_db "''a@x.com''" "''pw1''" ?u] f1 by simp
  have bad_pw: "authenticate_user ?v hammer_db ''a@x.com'' ''pw2'' = None"
    by (simp add: authenticate_user_def hammer_db_def first_def)
  have bad_email: "authenticate_user ?v hammer_db ''b@x.com'' ''pw1'' = None"
    by (simp add: authenticate_user_def hammer_db_def first_def)
  show ?thesis
    using ok bad_pw bad_email
      authenticate_user_iff [of ?v hammer_db "''a@x.com''" "''pw2''" ?u "\<lambda>payload. ''jwt''" 0]
      authenticate_user_iff [of ?v hammer_db "''b@x.com''" "''pw1''" ?u "\<lambda>payload. ''jwt''" 0]
    by simp
qed

lemma create_access_token_explicit:
  "d \<noteq> 0 \<Longrightarrow>
   create_access_token jwt_encode now data (Some d) =
     jwt_encode (data(''exp'' \<mapsto> Datetime (now + d)))"
  by (simp add: create_access_token_def)

lemma create_access_token_default:
  "create_access_token jwt_encode now data None =
     jwt_encode (data(''exp'' \<mapsto> Datetime (now + 900000000)))"
  by (simp add: create_access_token_def timedelta_minutes_def)

lemma authenticate_user_email:
  assumes "authenticate_user verify_password db username password' = Some user"
  shows "User.email user = username"
proof -
  from assms have "first (filter (\<lambda>u. User.email u = username) (users db)) = Some user"
    by (simp add: authenticate_user_def split: option.splits if_splits)
  then show ?thesis
    using first_filter_SomeD [of "\<lambda>u. User.email u = username" "users db" user] by simp
qed

text \<open>
  C8. A successful login returns the encoding of a payload whose subject is the email of
  the authenticated user, the one that was submitted, and whose expiry is the issuing
  instant plus 30 minutes. Called without an expiry duration, \<open>create_access_token\<close>
  sets the expiry to the issuing instant plus 15 minutes. Instants are in microseconds.
\<close>

theorem access_token_expiry:
  "(authenticate_user verify_password db username password' = Some user \<longrightarrow>
      User.email user = username \<and>
      login_for_access_token jwt_encode verify_password now db username password' =
        Inr \<lparr>access_token =
               jwt_encode [''sub'' \<mapsto> Str (User.email user),
                           ''exp'' \<mapsto> Datetime (now + 30 * 60 * 1000000)],
             token_type = ''bearer''\<rparr>) \<and>
   create_access_token jwt_encode now data None =
     jwt_encode (data(''exp'' \<mapsto> Datetime (now + 15 * 60 * 1000000)))"
proof (intro conjI impI)
  assume h: "authenticate_user verify_password db username password' = Some user"
  show "User.email user = username"
    by (rule authenticate_user_email [OF h])
  have d: "timedelta_minutes 30 \<noteq> 0"
    by (simp add: timedelta_minutes_def)
  show "login_for_access_token jwt_encode verify_password now db username password' =
        Inr \<lparr>access_token =
               jwt_encode [''sub'' \<mapsto> Str (User.email user),
                           ''exp'' \<mapsto> Datetime (now + 30 * 60 * 1000000)],
             token_type = ''bearer''\<rparr>"
    unfolding login_for_access_token_def h Let_def option.case
      create_access_token_explicit [OF d]
    by (simp add: timedelta_minutes_def)
next
  show "create_access_token jwt_encode now data None =
     jwt_encode (data(''exp'' \<mapsto> Datetime (now + 15 * 60 * 1000000)))"
    by (simp add: create_access_token_default)
qed

theorem access_token_expiry_witness:
  "authenticate_user (\<lambda>plain hashed. hashed = ''hash-'' @ plain) hammer_db ''a@x.com'' ''pw1'' =
     Some \<lparr>User.id = ''u1'', name = ''A'', email = ''a@x.com'', password = ''hash-pw1''\<rparr> \<and>
   login_for_access_token
       (\<lambda>payload. if payload ''sub'' = Some (Str ''a@x.com'') \<and>
                      payload ''exp'' = Some (Datetime 1800000000)
                   then ''a@x.com until 1800 s'' else ''another token'')
       (\<lambda>plain hashed. hashed = ''hash-'' @ plain) 0 hammer_db ''a@x.com'' ''pw1'' =
     Inr \<lparr>access_token = ''a@x.com until 1800 s'', token_type = ''bearer''\<rparr>"
proof -
  let ?v = "\<lambda>plain hashed. hashed = ''hash-'' @ plain"
  let ?u = "\<lparr>User.id = ''u1'', name = ''A'', email = ''a@x.com'', password = ''hash-pw1''\<rparr>"
  let ?enc = "\<lambda>payload. if payload ''sub'' = Some (Str ''a@x.com'') \<and>
                             payload ''exp'' = Some (Datetime 1800000000)
                          then ''a@x.com until 1800 s'' else ''another token''"
  have ok: "authenticate_user ?v hammer_db ''a@x.com'' ''pw1'' = Some ?u"
    by (simp add: authenticate_user_def hammer_db_def first_def)
  show ?thesis
    using ok access_token_expiry [of ?v hammer_db "''a@x.com''" "''pw1''" ?u ?enc 0]
    by simp
qed

section \<open>The product store\<close>











text \<open>
  The \<open>id\<close> default is one value per process: a second product created with it is
  refused by the primary key.
\<close>

lemma create_product_same_default_twice:
  "create_product
     (snd (create_product hammer_db ''p0''
             \<lparr>ProductCreate.name = ''Saw'', description = None, price = 8, stock_quantity = 2,
              image_url = None, category_id = ''c1'', user_id = ''u1''\<rparr> ''u1''))
     ''p0''
     \<lparr>ProductCreate.name = ''Axe'', description = None, price = 9, stock_quantity = 1,
      image_url = None, category_id = ''c1'', user_id = ''u1''\<rparr> ''u1'' =
   (Inl (IntegrityError ''products_pkey''),
    snd (create_product hammer_db ''p0''
           \<lparr>ProductCreate.name = ''Saw'', description = None, price = 8, stock_quantity = 2,
            image_url = None, category_id = ''c1'', user_id = ''u1''\<rparr> ''u1''))"
  by (simp add: create_product_def add_commit_product_def Product_attrs_def hammer_db_def
        first_def INTEGER_fits_def Let_def)

end
